theory Spec2Isabelle
  imports Main "HOL-Library.Word"
begin

section \<open>The shared shader types of \<^verbatim>\<open>Physics/ShaderTypes.h\<close>\<close>

text \<open>
  The header declares one type and nothing that runs:
  \<^verbatim>\<open>
  #include <simd/simd.h>

  typedef struct {
      matrix_float4x4 projectionMatrix;
      matrix_float4x4 modelViewMatrix;
      vector_float4   color;
  } Uniforms;
  \<close>
  The struct is embedded as a record with the same field names in the same order. Its
  two field types come from the platform header \<^verbatim>\<open><simd/simd.h>\<close>.
\<close>

subsection \<open>The vector and matrix types of the platform header\<close>

text \<open>
  Modelled from the spec: \<^verbatim>\<open><simd/simd.h>\<close> is not among the sources. A
  \<^verbatim>\<open>vector_float4\<close> is a vector of four single-precision values and a
  \<^verbatim>\<open>matrix_float4x4\<close> is four such vectors, one per column (column-major).

  The struct only stores and loads these values, it never computes with them, so a
  single-precision value is its 32-bit pattern: equality below is equality of the stored
  bits, and no floating-point arithmetic or comparison is modelled.
\<close>

type_synonym float32 = "32 word"

datatype vector_float4 = simd_make_float4 float32 float32 float32 float32

datatype matrix_float4x4 =
  simd_matrix vector_float4 vector_float4 vector_float4 vector_float4

subsection \<open>The struct\<close>

record Uniforms =
  projectionMatrix :: matrix_float4x4
  modelViewMatrix :: matrix_float4x4
  color :: vector_float4

subsection \<open>Member access\<close>

text \<open>
  The header has no functions; what host code can do with a \<open>Uniforms\<close> object is
  what C gives every struct: read a member (\<^verbatim>\<open>u.color\<close>) and assign to a
  member (\<^verbatim>\<open>u.color = c\<close>).

  Both kinds of member access are written in state-passing style over the object: a
  write takes the object and returns the updated one, a read returns the value read
  together with the object as it is after the read.
\<close>

definition read_projectionMatrix :: "Uniforms \<Rightarrow> matrix_float4x4 \<times> Uniforms" where
  "read_projectionMatrix u = (projectionMatrix u, u)"

definition read_modelViewMatrix :: "Uniforms \<Rightarrow> matrix_float4x4 \<times> Uniforms" where
  "read_modelViewMatrix u = (modelViewMatrix u, u)"

definition read_color :: "Uniforms \<Rightarrow> vector_float4 \<times> Uniforms" where
  "read_color u = (color u, u)"

definition write_projectionMatrix :: "matrix_float4x4 \<Rightarrow> Uniforms \<Rightarrow> Uniforms" where
  "write_projectionMatrix p u = u\<lparr>projectionMatrix := p\<rparr>"

definition write_modelViewMatrix :: "matrix_float4x4 \<Rightarrow> Uniforms \<Rightarrow> Uniforms" where
  "write_modelViewMatrix m u = u\<lparr>modelViewMatrix := m\<rparr>"

definition write_color :: "vector_float4 \<Rightarrow> Uniforms \<Rightarrow> Uniforms" where
  "write_color c u = u\<lparr>color := c\<rparr>"

section \<open>Properties\<close>

lemmas member_access_defs =
  read_projectionMatrix_def read_modelViewMatrix_def read_color_def
  write_projectionMatrix_def write_modelViewMatrix_def write_color_def

subsection \<open>The shape of the type\<close>

text \<open>
  C1. \<open>Uniforms\<close> is an aggregate of exactly three fields, in the order
  \<open>projectionMatrix\<close>, \<open>modelViewMatrix\<close>, \<open>color\<close>, and has no other field: every
  object is the aggregate of its three field values, two aggregates are equal exactly
  when the three field values are, each of the two matrix fields is four columns of
  four single-precision values, and \<open>color\<close> is four single-precision values.
\<close>

theorem Uniforms_exactly_three_fields:
  "u = \<lparr>projectionMatrix = projectionMatrix u, modelViewMatrix = modelViewMatrix u,
          color = color u\<rparr>
   \<and> ((\<lparr>projectionMatrix = p, modelViewMatrix = m, color = c\<rparr>
        = \<lparr>projectionMatrix = p', modelViewMatrix = m', color = c'\<rparr>)
       = (p = p' \<and> m = m' \<and> c = c'))
   \<and> (\<exists>x0 y0 z0 w0 x1 y1 z1 w1 x2 y2 z2 w2 x3 y3 z3 w3 :: float32.
         projectionMatrix u =
           simd_matrix (simd_make_float4 x0 y0 z0 w0) (simd_make_float4 x1 y1 z1 w1)
                       (simd_make_float4 x2 y2 z2 w2) (simd_make_float4 x3 y3 z3 w3))
   \<and> (\<exists>x0 y0 z0 w0 x1 y1 z1 w1 x2 y2 z2 w2 x3 y3 z3 w3 :: float32.
         modelViewMatrix u =
           simd_matrix (simd_make_float4 x0 y0 z0 w0) (simd_make_float4 x1 y1 z1 w1)
                       (simd_make_float4 x2 y2 z2 w2) (simd_make_float4 x3 y3 z3 w3))
   \<and> (\<exists>x y z w :: float32. color u = simd_make_float4 x y z w)"
proof -
  have vec: "\<exists>x y z w. v = simd_make_float4 x y z w" for v
    by (cases v) blast
  have mat: "\<exists>x0 y0 z0 w0 x1 y1 z1 w1 x2 y2 z2 w2 x3 y3 z3 w3.
      M = simd_matrix (simd_make_float4 x0 y0 z0 w0) (simd_make_float4 x1 y1 z1 w1)
                      (simd_make_float4 x2 y2 z2 w2) (simd_make_float4 x3 y3 z3 w3)" for M
  proof (cases M)
    case (simd_matrix c0 c1 c2 c3)
    obtain x0 y0 z0 w0 where "c0 = simd_make_float4 x0 y0 z0 w0" using vec by blast
    moreover obtain x1 y1 z1 w1 where "c1 = simd_make_float4 x1 y1 z1 w1" using vec by blast
    moreover obtain x2 y2 z2 w2 where "c2 = simd_make_float4 x2 y2 z2 w2" using vec by blast
    moreover obtain x3 y3 z3 w3 where "c3 = simd_make_float4 x3 y3 z3 w3" using vec by blast
    ultimately show ?thesis using simd_matrix by blast
  qed
  have "u = \<lparr>projectionMatrix = projectionMatrix u, modelViewMatrix = modelViewMatrix u,
          color = color u\<rparr>"
    by simp
  moreover have "(\<lparr>projectionMatrix = p, modelViewMatrix = m, color = c\<rparr>
        = \<lparr>projectionMatrix = p', modelViewMatrix = m', color = c'\<rparr>)
       = (p = p' \<and> m = m' \<and> c = c')"
    by simp
  ultimately show ?thesis using vec mat by blast
qed

text \<open>
  With a single-precision value as 32 bits, the three fields hold \<open>16 + 16 + 4 = 36\<close>
  values, and there are exactly \<open>2 ^ (36 * 32)\<close> distinct objects: the type carries the
  three fields and nothing beside them.
\<close>

lemma card_vector_float4: "card (UNIV :: vector_float4 set) = 2 ^ 128"
proof -
  let ?f = "\<lambda>(x, y, z, w). simd_make_float4 x y z w"
  have "inj ?f" by (auto simp: inj_on_def)
  moreover have "range ?f = UNIV"
  proof -
    have "v \<in> range ?f" for v
      by (cases v) (auto simp: image_iff)
    then show ?thesis by auto
  qed
  ultimately have "card (UNIV :: vector_float4 set)
      = card (UNIV :: (float32 \<times> float32 \<times> float32 \<times> float32) set)"
    by (metis card_image)
  then show ?thesis
    by (simp add: card_cartesian_product card_word flip: UNIV_Times_UNIV)
qed

lemma card_matrix_float4x4: "card (UNIV :: matrix_float4x4 set) = 2 ^ 512"
proof -
  let ?f = "\<lambda>(c0, c1, c2, c3). simd_matrix c0 c1 c2 c3"
  have "inj ?f" by (auto simp: inj_on_def)
  moreover have "range ?f = UNIV"
  proof -
    have "M \<in> range ?f" for M
      by (cases M) (auto simp: image_iff)
    then show ?thesis by auto
  qed
  ultimately have "card (UNIV :: matrix_float4x4 set)
      = card (UNIV :: (vector_float4 \<times> vector_float4 \<times> vector_float4 \<times> vector_float4) set)"
    by (metis card_image)
  also have "\<dots> = (2 ^ 128) ^ 4"
    by (simp add: card_cartesian_product card_vector_float4 power4_eq_xxxx
          flip: UNIV_Times_UNIV)
  also have "\<dots> = (2::nat) ^ 512"
    by (simp flip: power_mult)
  finally show ?thesis .
qed

lemma card_Uniforms: "card (UNIV :: Uniforms set) = 2 ^ (36 * 32)"
proof -
  let ?f = "\<lambda>(p, m, c). \<lparr>projectionMatrix = p, modelViewMatrix = m, color = c\<rparr>"
  have "inj ?f" by (auto simp: inj_on_def)
  moreover have "range ?f = UNIV"
  proof -
    have "u \<in> range ?f" for u
      by (cases u) (auto simp: image_iff)
    then show ?thesis by auto
  qed
  ultimately have "card (UNIV :: Uniforms set)
      = card (UNIV :: (matrix_float4x4 \<times> matrix_float4x4 \<times> vector_float4) set)"
    by (metis card_image)
  also have "\<dots> = 2 ^ 512 * (2 ^ 512 * 2 ^ 128)"
    by (simp only: card_cartesian_product card_vector_float4 card_matrix_float4x4
          flip: UNIV_Times_UNIV)
  also have "\<dots> = (2::nat) ^ (36 * 32)"
    by (simp flip: power_add)
  finally show ?thesis .
qed

subsection \<open>Reading and writing one object\<close>

text \<open>
  C3. Round trip: starting from any object, after writing \<open>p\<close> to
  \<open>projectionMatrix\<close>, \<open>m\<close> to \<open>modelViewMatrix\<close> and \<open>c\<close> to \<open>color\<close>, reading each
  of the three fields gives back exactly the value written to it.
\<close>

theorem write_then_read_roundtrip:
  "fst (read_projectionMatrix
          (write_color c (write_modelViewMatrix m (write_projectionMatrix p u)))) = p
   \<and> fst (read_modelViewMatrix
          (write_color c (write_modelViewMatrix m (write_projectionMatrix p u)))) = m
   \<and> fst (read_color
          (write_color c (write_modelViewMatrix m (write_projectionMatrix p u)))) = c"
  by (simp add: member_access_defs)

text \<open>
  C7. Field updates are independent: writing \<open>color\<close> leaves \<open>projectionMatrix\<close> and
  \<open>modelViewMatrix\<close> unchanged, writing \<open>projectionMatrix\<close> leaves \<open>modelViewMatrix\<close>
  and \<open>color\<close> unchanged, and writing \<open>modelViewMatrix\<close> leaves \<open>projectionMatrix\<close> and
  \<open>color\<close> unchanged.
\<close>

theorem write_leaves_other_fields_unchanged:
  "fst (read_projectionMatrix (write_color c u)) = fst (read_projectionMatrix u)
   \<and> fst (read_modelViewMatrix (write_color c u)) = fst (read_modelViewMatrix u)
   \<and> fst (read_modelViewMatrix (write_projectionMatrix p u)) = fst (read_modelViewMatrix u)
   \<and> fst (read_color (write_projectionMatrix p u)) = fst (read_color u)
   \<and> fst (read_projectionMatrix (write_modelViewMatrix m u)) = fst (read_projectionMatrix u)
   \<and> fst (read_color (write_modelViewMatrix m u)) = fst (read_color u)"
  by (simp add: member_access_defs)

end
